theory Spec2Isabelle
  imports Complex_Main
begin

section \<open>Errors and C values\<close>

text \<open>
  The notebook \<^verbatim>\<open>Extras/Performance-solution.ipynb\<close> defines its kernels three
  ways: in plain Python, in Cython (\<^verbatim>\<open>%%cython\<close> cells) and through numba's
  \<^verbatim>\<open>@jit\<close>. Floating-point numbers are read as exact reals throughout: what is
  proved is proved under exact real arithmetic. Every way a call can stop without a
  value is a constructor of \<open>error\<close>:
  \<^item> \<open>ZeroDivisionError\<close>: a Python (or checked Cython) division by zero;
  \<^item> \<open>OverflowError\<close>: a Python integer that does not fit the machine integer a
    compiled function takes it in (the C \<^verbatim>\<open>int\<close> a Cython signature declares, the
    \<^verbatim>\<open>int64\<close> of a function compiled by numba);
  \<^item> \<open>AssertionError\<close>: a failed \<^verbatim>\<open>assert\<close>;
  \<^item> \<open>ValueError\<close>: numpy operands whose shapes do not fit;
  \<^item> \<open>IndexError\<close>: a subscript outside the array, where subscripts are checked;
  \<^item> \<open>OutOfBounds\<close>: a subscript outside the array in a function compiled with
    \<^verbatim>\<open>boundscheck(False)\<close> and \<^verbatim>\<open>wraparound(False)\<close>, where the behaviour of
    the compiled code is undefined;
  \<^item> \<open>LibraryError\<close>: an exception raised inside a library routine that does the
    function's work.
\<close>

datatype error =
  ZeroDivisionError | OverflowError | AssertionError | ValueError | IndexError | OutOfBounds
  | LibraryError

text \<open>
  A C \<^verbatim>\<open>double\<close> computed with \<^verbatim>\<open>cdivision(True)\<close> is either a real number or,
  after a division by zero, an infinity or a NaN.
\<close>

datatype c_double = Finite real | NonFinite

text \<open>The C \<^verbatim>\<open>int\<close> of the compiled cells has 32 bits.\<close>

definition INT_MIN :: int where
  "INT_MIN = - (2 ^ 31)"

definition INT_MAX :: int where
  "INT_MAX = 2 ^ 31 - 1"

definition fits_c_int :: "int \<Rightarrow> bool" where
  "fits_c_int N = (INT_MIN \<le> N \<and> N \<le> INT_MAX)"

text \<open>
  A function compiled by numba in \<^verbatim>\<open>nopython\<close> mode takes a Python integer as an
  \<^verbatim>\<open>int64\<close>.
\<close>

definition INT64_MIN :: int where
  "INT64_MIN = - (2 ^ 63)"

definition INT64_MAX :: int where
  "INT64_MAX = 2 ^ 63 - 1"

definition fits_int64 :: "int \<Rightarrow> bool" where
  "fits_int64 n = (INT64_MIN \<le> n \<and> n \<le> INT64_MAX)"

section \<open>The trapezoidal rule\<close>

text \<open>
  \<^verbatim>\<open>
  def f(x):
      return 2*x*x + 3*x + 1

  def trapz(f, a, b, N):
      h = (b-a)/float(N)
      sum_y = 0
      x = a
      for i in range(N):
          x += h
          sum_y += f(x)
      sum_y += .5 * (f(a) + f(b))
      return sum_y*h
  \<close>
  The loop state is the pair \<open>(x, sum_y)\<close>; \<^verbatim>\<open>range(N)\<close> runs \<open>nat N\<close> times
  (not at all for a negative \<open>N\<close>).
\<close>

definition f :: "real \<Rightarrow> real" where
  "f x = 2 * x * x + 3 * x + 1"

fun trapz_loop :: "(real \<Rightarrow> real) \<Rightarrow> real \<Rightarrow> nat \<Rightarrow> real \<times> real \<Rightarrow> real \<times> real" where
  "trapz_loop g h 0 (x, sum_y) = (x, sum_y)"
| "trapz_loop g h (Suc i) (x, sum_y) = trapz_loop g h i (x + h, sum_y + g (x + h))"

definition trapz :: "(real \<Rightarrow> real) \<Rightarrow> real \<Rightarrow> real \<Rightarrow> int \<Rightarrow> error + real" where
  "trapz g a b N =
     (if N = 0 then Inl ZeroDivisionError
      else
        let h = (b - a) / real_of_int N;
            sum_y = snd (trapz_loop g h (nat N) (a, 0));
            sum_y = sum_y + (1 / 2) * (g a + g b)
        in Inr (sum_y * h))"

text \<open>
  The formula the notebook displays above the definition, for a uniform grid of \<open>N\<close>
  panels of width \<open>h = (b - a) / N\<close>:
  \<open>I = h / 2 * (f x\<^sub>0 + 2 * f x\<^sub>1 + ... + 2 * f x\<^bsub>N-1\<^esub> + f x\<^sub>N)\<close> with \<open>x\<^sub>k = a + k * h\<close>.
\<close>

definition composite_trapezoid :: "(real \<Rightarrow> real) \<Rightarrow> real \<Rightarrow> real \<Rightarrow> nat \<Rightarrow> real" where
  "composite_trapezoid g a b N =
     (let h = (b - a) / real N
      in h * (g a / 2 + (\<Sum>k = 1..<N. g (a + real k * h)) + g b / 2))"

text \<open>
  The first \<^verbatim>\<open>%%cython\<close> cells compile the same text unchanged:
  \<^verbatim>\<open>
  def f2(x):
      return 2*x*x + 3*x + 1

  def trapz2(f, a, b, N):
      h = (b-a)/float(N)
      sum_y = 0
      x = a
      for i in range(N):
          x += h
          sum_y += f(x)
      sum_y += .5 * (f(a) + f(b))
      return sum_y*h
  \<close>
\<close>

definition f2 :: "real \<Rightarrow> real" where
  "f2 x = 2 * x * x + 3 * x + 1"

definition trapz2 :: "(real \<Rightarrow> real) \<Rightarrow> real \<Rightarrow> real \<Rightarrow> int \<Rightarrow> error + real" where
  "trapz2 g a b N =
     (if N = 0 then Inl ZeroDivisionError
      else
        let h = (b - a) / real_of_int N;
            sum_y = snd (trapz_loop g h (nat N) (a, 0));
            sum_y = sum_y + (1 / 2) * (g a + g b)
        in Inr (sum_y * h))"

text \<open>
  With type declarations:
  \<^verbatim>\<open>
  def f3(double x):
      return 2*x*x + 3*x + 1

  def trapz3(f, double a, double b, int N):
      cdef double h, x, sum_y
      cdef int i
      h = (b-a)/float(N)
      sum_y = 0
      x = a
      for i in range(N):
          x += h
          sum_y += f(x)
      sum_y += .5 * (f(a) + f(b))
      return sum_y*h
  \<close>
  The argument \<open>N\<close> is converted to a C \<^verbatim>\<open>int\<close> on entry, which raises
  \<^verbatim>\<open>OverflowError\<close> for a Python integer outside its range. The division is a
  checked one: Cython raises \<^verbatim>\<open>ZeroDivisionError\<close> for a zero divisor.
\<close>

definition f3 :: "real \<Rightarrow> real" where
  "f3 x = 2 * x * x + 3 * x + 1"

definition trapz3 :: "(real \<Rightarrow> real) \<Rightarrow> real \<Rightarrow> real \<Rightarrow> int \<Rightarrow> error + real" where
  "trapz3 g a b N =
     (if \<not> fits_c_int N then Inl OverflowError
      else if N = 0 then Inl ZeroDivisionError
      else
        let h = (b - a) / real_of_int N;
            sum_y = snd (trapz_loop g h (nat N) (a, 0));
            sum_y = sum_y + (1 / 2) * (g a + g b)
        in Inr (sum_y * h))"

text \<open>
  With the polynomial inlined and C division:
  \<^verbatim>\<open>
  cdef inline double f4(double x):
      return 2*x*x + 3*x + 1

  @cython.cdivision(True)
  cpdef double trapz4(double a, double b, int N):
      cdef double h, x, sum_y
      cdef int i
      h = (b-a)/float(N)
      sum_y = 0
      x = a
      for i in range(N):
          x += h
          sum_y += f4(x)
      sum_y += .5 * (f4(a) + f4(b))
      return sum_y*h
  \<close>
  \<^verbatim>\<open>cdivision(True)\<close> removes the zero check: for \<open>N = 0\<close> the step \<open>h\<close> is an
  infinity or a NaN, and so is the product returned.
\<close>

definition f4 :: "real \<Rightarrow> real" where
  "f4 x = 2 * x * x + 3 * x + 1"

definition trapz4 :: "real \<Rightarrow> real \<Rightarrow> int \<Rightarrow> error + c_double" where
  "trapz4 a b N =
     (if \<not> fits_c_int N then Inl OverflowError
      else if N = 0 then Inr NonFinite
      else
        let h = (b - a) / real_of_int N;
            sum_y = snd (trapz_loop f4 h (nat N) (a, 0));
            sum_y = sum_y + (1 / 2) * (f4 a + f4 b)
        in Inr (Finite (sum_y * h)))"

section \<open>Sequencing computations that can fail\<close>

definition bindE :: "error + 'a \<Rightarrow> ('a \<Rightarrow> error + 'b) \<Rightarrow> error + 'b" where
  "bindE m k = (case m of Inl e \<Rightarrow> Inl e | Inr x \<Rightarrow> k x)"

text \<open>A \<^verbatim>\<open>for i in ...\<close> loop whose body can fail: the first failure ends it.\<close>

primrec for_each :: "nat list \<Rightarrow> (nat \<Rightarrow> 's \<Rightarrow> error + 's) \<Rightarrow> 's \<Rightarrow> error + 's" where
  "for_each [] body s = Inr s"
| "for_each (i # is) body s = bindE (body i s) (for_each is body)"

section \<open>Arrays\<close>

text \<open>
  A one-dimensional \<^verbatim>\<open>float64\<close> array is a list of reals. A two-dimensional one
  carries its shape, as a numpy array does (an array of shape \<open>(0, P)\<close> still knows
  \<open>P\<close>), and its rows; \<open>is_ndarray2\<close> says that the rows fill the shape.
\<close>

record matrix =
  shape0 :: nat
  shape1 :: nat
  cells :: "real list list"

definition is_ndarray2 :: "matrix \<Rightarrow> bool" where
  "is_ndarray2 A =
     (length (cells A) = shape0 A \<and> list_all (\<lambda>r. length r = shape1 A) (cells A))"

definition at2 :: "matrix \<Rightarrow> nat \<Rightarrow> nat \<Rightarrow> real" where
  "at2 A i j = cells A ! i ! j"

text \<open>
  Subscripts with numpy's check, for the non-negative subscripts that the loops
  produce: \<^verbatim>\<open>v[i]\<close>, \<^verbatim>\<open>v[i] = x\<close>, \<^verbatim>\<open>A[i,j]\<close> and \<^verbatim>\<open>A[i,j] = x\<close> raise
  \<^verbatim>\<open>IndexError\<close> outside the shape.
\<close>

definition py_get :: "'a list \<Rightarrow> nat \<Rightarrow> error + 'a" where
  "py_get v i = (if i < length v then Inr (v ! i) else Inl IndexError)"

definition py_set :: "'a list \<Rightarrow> nat \<Rightarrow> 'a \<Rightarrow> error + 'a list" where
  "py_set v i x = (if i < length v then Inr (v[i := x]) else Inl IndexError)"

definition get2 :: "matrix \<Rightarrow> nat \<Rightarrow> nat \<Rightarrow> error + real" where
  "get2 A i j = (if i < shape0 A \<and> j < shape1 A then Inr (at2 A i j) else Inl IndexError)"

definition set2 :: "matrix \<Rightarrow> nat \<Rightarrow> nat \<Rightarrow> real \<Rightarrow> error + matrix" where
  "set2 A i j x =
     (if i < shape0 A \<and> j < shape1 A
      then Inr (A\<lparr>cells := (cells A)[i := (cells A ! i)[j := x]]\<rparr>)
      else Inl IndexError)"

text \<open>
  \<^verbatim>\<open>np.empty\<close> returns uninitialised memory: its content, whatever it is, is the
  parameter \<open>junk\<close>.
\<close>

definition np_empty :: "nat \<Rightarrow> (nat \<Rightarrow> 'a) \<Rightarrow> 'a list" where
  "np_empty n junk = map junk [0..<n]"

definition np_empty2 :: "nat \<Rightarrow> nat \<Rightarrow> (nat \<Rightarrow> nat \<Rightarrow> real) \<Rightarrow> matrix" where
  "np_empty2 M N junk =
     \<lparr>shape0 = M, shape1 = N, cells = map (\<lambda>i. map (junk i) [0..<N]) [0..<M]\<rparr>"

definition np_ones :: "nat \<Rightarrow> real list" where
  "np_ones n = replicate n 1"

text \<open>
  \<^verbatim>\<open>np.random.rand(k)\<close> takes the next \<open>k\<close> draws of the generator; the stream of
  draws still to come is the parameter \<open>rng\<close>.
\<close>

definition np_random_rand :: "nat \<Rightarrow> (nat \<Rightarrow> real) \<Rightarrow> real list" where
  "np_random_rand k rng = map rng [0..<k]"

text \<open>
  \<^verbatim>\<open>np.column_stack((v, A))\<close> and \<^verbatim>\<open>np.column_stack((A, v))\<close> for a vector \<open>v\<close>
  with one entry per row of \<open>A\<close>; numpy raises \<^verbatim>\<open>ValueError\<close> otherwise.
\<close>

definition column_stack_vm :: "real list \<Rightarrow> matrix \<Rightarrow> error + matrix" where
  "column_stack_vm v A =
     (if length v = shape0 A
      then Inr \<lparr>shape0 = shape0 A, shape1 = Suc (shape1 A),
                cells = map2 (\<lambda>x r. x # r) v (cells A)\<rparr>
      else Inl ValueError)"

definition column_stack_mv :: "matrix \<Rightarrow> real list \<Rightarrow> error + matrix" where
  "column_stack_mv A v =
     (if length v = shape0 A
      then Inr \<lparr>shape0 = shape0 A, shape1 = Suc (shape1 A),
                cells = map2 (\<lambda>r x. r @ [x]) (cells A) v\<rparr>
      else Inl ValueError)"

text \<open>\<^verbatim>\<open>A.T\<close> read as a value, and \<^verbatim>\<open>c * A\<close>.\<close>

definition np_T :: "matrix \<Rightarrow> matrix" where
  "np_T A =
     \<lparr>shape0 = shape1 A, shape1 = shape0 A,
      cells = map (\<lambda>j. map (\<lambda>i. at2 A i j) [0..<shape0 A]) [0..<shape1 A]\<rparr>"

definition np_scale :: "real \<Rightarrow> matrix \<Rightarrow> matrix" where
  "np_scale c A = A\<lparr>cells := map (map (\<lambda>x. c * x)) (cells A)\<rparr>"

text \<open>
  \<^verbatim>\<open>np.dot(A, v)\<close> of a matrix and a vector: \<^verbatim>\<open>ValueError\<close> unless \<open>A\<close> has as
  many columns as \<open>v\<close> has entries.
\<close>

definition np_dot :: "matrix \<Rightarrow> real list \<Rightarrow> error + real list" where
  "np_dot A v =
     (if shape1 A = length v
      then Inr (map (\<lambda>r. sum_list (map2 (\<lambda>a x. a * x) r v)) (cells A))
      else Inl ValueError)"

text \<open>
  \<^verbatim>\<open>u - v\<close> of two vectors, with numpy's broadcasting of a vector of length one.
\<close>

definition np_sub :: "real list \<Rightarrow> real list \<Rightarrow> error + real list" where
  "np_sub u v =
     (if length u = length v then Inr (map2 (\<lambda>a b. a - b) u v)
      else if length v = 1 then Inr (map (\<lambda>a. a - v ! 0) u)
      else if length u = 1 then Inr (map (\<lambda>b. u ! 0 - b) v)
      else Inl ValueError)"

section \<open>Applying the integrator to columns\<close>

text \<open>
  \<^verbatim>\<open>
  cpdef np.ndarray[double] apply_trapz(np.ndarray col_a, np.ndarray col_b, np.ndarray col_n):
      assert(col_a.dtype == np.float and col_b.dtype == np.float and col_n.dtype == np.int)

      cdef Py_ssize_t i, n = len(col_n)
      assert(len(col_a) == len(col_b) == n)
      cdef np.ndarray[double] res = np.empty(n)

      for i in range(len(col_a)):
          res[i] = trapz4(col_a[i], col_b[i], col_n[i])
      return res
  \<close>
  The arguments are arrays of any dtype: of floats, of integers, or of something else
  (of which only the length matters).
\<close>

datatype dtype = Float64 | Int64 | Other_dtype

datatype ndarray = Float_array "real list" | Int_array "int list" | Other_array nat

fun dtype_of :: "ndarray \<Rightarrow> dtype" where
  "dtype_of (Float_array xs) = Float64"
| "dtype_of (Int_array ns) = Int64"
| "dtype_of (Other_array l) = Other_dtype"

fun len :: "ndarray \<Rightarrow> nat" where
  "len (Float_array xs) = length xs"
| "len (Int_array ns) = length ns"
| "len (Other_array l) = l"

fun floats :: "ndarray \<Rightarrow> real list" where
  "floats (Float_array xs) = xs"
| "floats (Int_array ns) = map real_of_int ns"
| "floats (Other_array l) = []"

fun ints :: "ndarray \<Rightarrow> int list" where
  "ints (Int_array ns) = ns"
| "ints (Float_array xs) = []"
| "ints (Other_array l) = []"

definition apply_trapz_body ::
    "ndarray \<Rightarrow> ndarray \<Rightarrow> ndarray \<Rightarrow> nat \<Rightarrow> c_double list \<Rightarrow> error + c_double list" where
  "apply_trapz_body col_a col_b col_n i res =
     bindE (py_get (floats col_a) i) (\<lambda>a.
     bindE (py_get (floats col_b) i) (\<lambda>b.
     bindE (py_get (ints col_n) i) (\<lambda>N.
     bindE (trapz4 a b N) (\<lambda>v.
     py_set res i v))))"

definition apply_trapz ::
    "ndarray \<Rightarrow> ndarray \<Rightarrow> ndarray \<Rightarrow> (nat \<Rightarrow> c_double) \<Rightarrow> error + c_double list" where
  "apply_trapz col_a col_b col_n junk =
     (if \<not> (dtype_of col_a = Float64 \<and> dtype_of col_b = Float64 \<and> dtype_of col_n = Int64)
      then Inl AssertionError
      else
        let n = len col_n in
        if \<not> (len col_a = len col_b \<and> len col_b = n) then Inl AssertionError
        else
          let res = np_empty n junk
          in for_each [0..<len col_a] (apply_trapz_body col_a col_b col_n) res)"

section \<open>Pairwise distances\<close>

text \<open>
  \<^verbatim>\<open>
  def pairwise_py(X):
      M, N = X.shape
      D = np.empty((M,M), dtype=np.float64)
      for i in range(M):
          for j in range(M):
              d = 0.0
              for k in range(N):
                  tmp = X[i,k] - X[j,k]
                  d += tmp*tmp
              D[i,j] = np.sqrt(d)
      return D
  \<close>
  The three loops, from the innermost: over \<open>k\<close> with state \<open>d\<close>, over \<open>j\<close> and over
  \<open>i\<close> with state \<open>D\<close>.
\<close>

definition pairwise_k :: "matrix \<Rightarrow> nat \<Rightarrow> nat \<Rightarrow> nat \<Rightarrow> real \<Rightarrow> error + real" where
  "pairwise_k X i j k d =
     bindE (get2 X i k) (\<lambda>a.
     bindE (get2 X j k) (\<lambda>b.
     let tmp = a - b in Inr (d + tmp * tmp)))"

definition pairwise_j :: "matrix \<Rightarrow> nat \<Rightarrow> nat \<Rightarrow> nat \<Rightarrow> matrix \<Rightarrow> error + matrix" where
  "pairwise_j X N i j D =
     bindE (for_each [0..<N] (pairwise_k X i j) 0) (\<lambda>d.
     set2 D i j (sqrt d))"

definition pairwise_i :: "matrix \<Rightarrow> nat \<Rightarrow> nat \<Rightarrow> nat \<Rightarrow> matrix \<Rightarrow> error + matrix" where
  "pairwise_i X M N i D = for_each [0..<M] (pairwise_j X N i) D"

definition pairwise_py :: "matrix \<Rightarrow> (nat \<Rightarrow> nat \<Rightarrow> real) \<Rightarrow> error + matrix" where
  "pairwise_py X junk =
     (let M = shape0 X; N = shape1 X;
          D = np_empty2 M M junk
      in for_each [0..<M] (pairwise_i X M N) D)"

text \<open>The Euclidean distance between rows \<open>i\<close> and \<open>j\<close> of \<open>X\<close>.\<close>

definition row_distance :: "matrix \<Rightarrow> nat \<Rightarrow> nat \<Rightarrow> real" where
  "row_distance X i j = sqrt (\<Sum>k<shape1 X. (at2 X i k - at2 X j k) ^ 2)"

section \<open>Gradient descent in Python\<close>

text \<open>
  \<^verbatim>\<open>
  def gradient_descent(X, y, gamma = 1., n_iter = 10**3):
      n, P = X.shape
      nX = np.column_stack(((np.ones(n,)), X))
      w = np.random.rand(P+1)
      for i in range(1,n_iter):
          dE = np.dot((2*nX.T),(np.dot(nX,w) - y))
          w -= gamma*dE
      return w
  \<close>
  \<^verbatim>\<open>range(1, n_iter)\<close> runs \<open>nat (n_iter - 1)\<close> times.
\<close>

primrec repeatE :: "nat \<Rightarrow> ('s \<Rightarrow> error + 's) \<Rightarrow> 's \<Rightarrow> error + 's" where
  "repeatE 0 body s = Inr s"
| "repeatE (Suc i) body s = bindE (body s) (repeatE i body)"

definition gd_iteration :: "matrix \<Rightarrow> real list \<Rightarrow> real \<Rightarrow> real list \<Rightarrow> error + real list" where
  "gd_iteration nX y gamma w =
     bindE (np_dot nX w) (\<lambda>p.
     bindE (np_sub p y) (\<lambda>r.
     bindE (np_dot (np_scale 2 (np_T nX)) r) (\<lambda>dE.
     Inr (map2 (\<lambda>wj dEj. wj - gamma * dEj) w dE))))"

definition gradient_descent ::
    "matrix \<Rightarrow> real list \<Rightarrow> real \<Rightarrow> int \<Rightarrow> (nat \<Rightarrow> real) \<Rightarrow> error + real list" where
  "gradient_descent X y gamma n_iter rng =
     (let n = shape0 X; P = shape1 X
      in bindE (column_stack_vm (np_ones n) X) (\<lambda>nX.
           let w = np_random_rand (P + 1) rng
           in repeatE (nat (n_iter - 1)) (gd_iteration nX y gamma) w))"

text \<open>
  The algorithm as the notebook displays it above the definition: \<open>w\<close> starts uniformly
  at random, \<open>k = 0\<close>; while \<open>k\<close> is below the maximum number of iterations, the
  gradient is \<open>2 * X\<^sup>T * (y - X * w)\<close> and \<open>w\<close> becomes \<open>w - \<gamma> * gradient\<close>. Here
  \<open>Xb\<close> is the matrix with its column of ones.
\<close>

definition row_dot :: "matrix \<Rightarrow> nat \<Rightarrow> real list \<Rightarrow> real" where
  "row_dot Xb i w = (\<Sum>k<shape1 Xb. at2 Xb i k * w ! k)"

definition displayed_gradient :: "matrix \<Rightarrow> real list \<Rightarrow> real list \<Rightarrow> real list" where
  "displayed_gradient Xb y w =
     map (\<lambda>j. 2 * (\<Sum>i<shape0 Xb. at2 Xb i j * (y ! i - row_dot Xb i w))) [0..<shape1 Xb]"

definition displayed_update :: "matrix \<Rightarrow> real list \<Rightarrow> real \<Rightarrow> real list \<Rightarrow> real list" where
  "displayed_update Xb y gamma w =
     map (\<lambda>j. w ! j - gamma * displayed_gradient Xb y w ! j) [0..<shape1 Xb]"

definition bias_first :: "matrix \<Rightarrow> matrix" where
  "bias_first X =
     \<lparr>shape0 = shape0 X, shape1 = Suc (shape1 X), cells = map (\<lambda>r. 1 # r) (cells X)\<rparr>"

definition displayed_gradient_descent ::
    "matrix \<Rightarrow> real list \<Rightarrow> real \<Rightarrow> int \<Rightarrow> (nat \<Rightarrow> real) \<Rightarrow> real list" where
  "displayed_gradient_descent X y gamma n_iter rng =
     (displayed_update (bias_first X) y gamma ^^ nat n_iter)
       (map rng [0..<shape1 X + 1])"

text \<open>
  The gradient of the squared error \<open>\<parallel>y - X * w\<parallel>\<^sup>2\<close>, which is \<open>2 * X\<^sup>T * (X * w - y)\<close>,
  and the descent step along it.
\<close>

definition descent_gradient :: "matrix \<Rightarrow> real list \<Rightarrow> real list \<Rightarrow> real list" where
  "descent_gradient Xb y w =
     map (\<lambda>j. 2 * (\<Sum>i<shape0 Xb. at2 Xb i j * (row_dot Xb i w - y ! i))) [0..<shape1 Xb]"

definition descent_update :: "matrix \<Rightarrow> real list \<Rightarrow> real \<Rightarrow> real list \<Rightarrow> real list" where
  "descent_update Xb y gamma w =
     map (\<lambda>j. w ! j - gamma * descent_gradient Xb y w ! j) [0..<shape1 Xb]"

section \<open>Gradient descent in Cython\<close>

text \<open>
  \<^verbatim>\<open>
  @cython.boundscheck(False)
  @cython.wraparound(False)
  cpdef np.ndarray[np.float64_t, ndim=1] gradient_descent2(np.ndarray[np.float64_t, ndim=2] X,
                       np.ndarray[np.float64_t, ndim=1] y,
                       double gamma = 1.,
                       int n_iter = 1000):
      cdef:
          int i, j, k
          Py_ssize_t n, P
          double suma

      n = X.shape[0]
      P = X.shape[1]

      cdef np.ndarray[np.float64_t, ndim=2] nX = np.column_stack((X, np.ones(n)))
      cdef np.ndarray[np.float64_t, ndim=1] w = np.random.rand(P+1)
      cdef np.ndarray[np.float64_t, ndim=2] nXT = nX.T
      cdef np.ndarray[np.float64_t, ndim=1] tmp_d = np.empty(n)
      cdef np.ndarray[np.float64_t, ndim=1] tmp_dE = np.empty(P+1)

      # firstly calculate 2*X.T as we can take this out of the loop - it does not update
      for j in range(P):
          for k in range(n):
              nXT[k,j] *= 2.0

      for i in range(n_iter):
          # calculate dot(nX, w) - y
          for j in range(n):
              suma = 0
              for k in range(P+1):
                  suma += (nX[k,j] * w[k])
              tmp_d[j] = (suma - y[j])
          # calculate dot(2*nX.T, dot(nX, w) - y)
          for j in range(P+1):
              suma = 0
              for k in range(n):
                  suma += (nXT[k,j] * tmp_d[k])
              tmp_dE[j] = suma
          # modify w by gamma * dE
          for j in range(P+1):
              w[j] -= (gamma * tmp_dE[j])
      return w
  \<close>
  The arrays are mutated in place, and \<^verbatim>\<open>nXT = nX.T\<close> is a view: it has shape
  \<open>(P + 1, n)\<close> and its cell \<open>(k, j)\<close> is the cell \<open>(j, k)\<close> of \<open>nX\<close>, in the same
  memory. So the store has one block for both, of shape \<open>(n, P + 1)\<close>. With bounds
  checking and wraparound disabled, a subscript outside the shape of the array it is
  applied to is not caught: the model stops there with \<open>OutOfBounds\<close>. The extents
  \<open>n\<close> and \<open>P + 1\<close> are taken to fit the C \<^verbatim>\<open>int\<close> counters \<open>j\<close> and \<open>k\<close>.
\<close>

record gd2_store =
  mem_nX :: "real list list"
  mem_w :: "real list"
  mem_tmp_d :: "real list"
  mem_tmp_dE :: "real list"

definition vec_get :: "real list \<Rightarrow> nat \<Rightarrow> error + real" where
  "vec_get v k = (if k < length v then Inr (v ! k) else Inl OutOfBounds)"

definition vec_set :: "real list \<Rightarrow> nat \<Rightarrow> real \<Rightarrow> error + real list" where
  "vec_set v k x = (if k < length v then Inr (v[k := x]) else Inl OutOfBounds)"

definition nX_get :: "nat \<Rightarrow> nat \<Rightarrow> gd2_store \<Rightarrow> nat \<Rightarrow> nat \<Rightarrow> error + real" where
  "nX_get n P s k j =
     (if k < n \<and> j < P + 1 then Inr (mem_nX s ! k ! j) else Inl OutOfBounds)"

definition nXT_get :: "nat \<Rightarrow> nat \<Rightarrow> gd2_store \<Rightarrow> nat \<Rightarrow> nat \<Rightarrow> error + real" where
  "nXT_get n P s k j =
     (if k < P + 1 \<and> j < n then Inr (mem_nX s ! j ! k) else Inl OutOfBounds)"

definition nXT_set :: "nat \<Rightarrow> nat \<Rightarrow> gd2_store \<Rightarrow> nat \<Rightarrow> nat \<Rightarrow> real \<Rightarrow> error + gd2_store" where
  "nXT_set n P s k j x =
     (if k < P + 1 \<and> j < n
      then Inr (s\<lparr>mem_nX := (mem_nX s)[j := (mem_nX s ! j)[k := x]]\<rparr>)
      else Inl OutOfBounds)"

text \<open>\<^verbatim>\<open>for j in range(P): for k in range(n): nXT[k,j] *= 2.0\<close>\<close>

definition gd2_double :: "nat \<Rightarrow> nat \<Rightarrow> gd2_store \<Rightarrow> error + gd2_store" where
  "gd2_double n P =
     for_each [0..<P] (\<lambda>j.
       for_each [0..<n] (\<lambda>k s.
         bindE (nXT_get n P s k j) (\<lambda>x. nXT_set n P s k j (x * 2))))"

text \<open>
  \<^verbatim>\<open>for j in range(n): suma = 0; for k in range(P+1): suma += nX[k,j] * w[k];
  tmp_d[j] = suma - y[j]\<close>
\<close>

definition gd2_residual :: "nat \<Rightarrow> nat \<Rightarrow> real list \<Rightarrow> gd2_store \<Rightarrow> error + gd2_store" where
  "gd2_residual n P y =
     for_each [0..<n] (\<lambda>j s.
       bindE (for_each [0..<P + 1] (\<lambda>k suma.
                bindE (nX_get n P s k j) (\<lambda>a.
                bindE (vec_get (mem_w s) k) (\<lambda>b.
                Inr (suma + a * b)))) 0) (\<lambda>suma.
       bindE (vec_get y j) (\<lambda>yj.
       bindE (vec_set (mem_tmp_d s) j (suma - yj)) (\<lambda>d.
       Inr (s\<lparr>mem_tmp_d := d\<rparr>)))))"

text \<open>
  \<^verbatim>\<open>for j in range(P+1): suma = 0; for k in range(n): suma += nXT[k,j] * tmp_d[k];
  tmp_dE[j] = suma\<close>
\<close>

definition gd2_gradient :: "nat \<Rightarrow> nat \<Rightarrow> gd2_store \<Rightarrow> error + gd2_store" where
  "gd2_gradient n P =
     for_each [0..<P + 1] (\<lambda>j s.
       bindE (for_each [0..<n] (\<lambda>k suma.
                bindE (nXT_get n P s k j) (\<lambda>a.
                bindE (vec_get (mem_tmp_d s) k) (\<lambda>b.
                Inr (suma + a * b)))) 0) (\<lambda>suma.
       bindE (vec_set (mem_tmp_dE s) j suma) (\<lambda>dE.
       Inr (s\<lparr>mem_tmp_dE := dE\<rparr>))))"

text \<open>\<^verbatim>\<open>for j in range(P+1): w[j] -= gamma * tmp_dE[j]\<close>\<close>

definition gd2_step :: "nat \<Rightarrow> real \<Rightarrow> gd2_store \<Rightarrow> error + gd2_store" where
  "gd2_step P gamma =
     for_each [0..<P + 1] (\<lambda>j s.
       bindE (vec_get (mem_w s) j) (\<lambda>wj.
       bindE (vec_get (mem_tmp_dE s) j) (\<lambda>dEj.
       bindE (vec_set (mem_w s) j (wj - gamma * dEj)) (\<lambda>w'.
       Inr (s\<lparr>mem_w := w'\<rparr>)))))"

definition gd2_iteration ::
    "nat \<Rightarrow> nat \<Rightarrow> real list \<Rightarrow> real \<Rightarrow> nat \<Rightarrow> gd2_store \<Rightarrow> error + gd2_store" where
  "gd2_iteration n P y gamma i s =
     bindE (gd2_residual n P y s) (\<lambda>s.
     bindE (gd2_gradient n P s) (\<lambda>s.
     gd2_step P gamma s))"

text \<open>
  The uninitialised \<open>tmp_d\<close> and \<open>tmp_dE\<close> take their content from \<open>junk\<close>, one after
  the other.
\<close>

definition gradient_descent2 ::
    "matrix \<Rightarrow> real list \<Rightarrow> real \<Rightarrow> int \<Rightarrow> (nat \<Rightarrow> real) \<Rightarrow> (nat \<Rightarrow> real) \<Rightarrow> error + real list" where
  "gradient_descent2 X y gamma n_iter rng junk =
     (if \<not> fits_c_int n_iter then Inl OverflowError
      else
        let n = shape0 X; P = shape1 X
        in bindE (column_stack_mv X (np_ones n)) (\<lambda>nX.
             let s = \<lparr>mem_nX = cells nX,
                      mem_w = np_random_rand (P + 1) rng,
                      mem_tmp_d = np_empty n junk,
                      mem_tmp_dE = np_empty (P + 1) (\<lambda>i. junk (n + i))\<rparr>
             in bindE (gd2_double n P s) (\<lambda>s.
                bindE (for_each [0..<nat n_iter] (gd2_iteration n P y gamma) s) (\<lambda>s.
                Inr (mem_w s)))))"

section \<open>Monte Carlo estimate of pi\<close>

text \<open>
  \<^verbatim>\<open>
  from random import random

  def monte_carlo_pi_nojit(n_samples):
      acc = 0
      for i in range(n_samples):
          x = random()
          y = random()
          if (x**2 + y**2) < 1.:
              acc += 1
      return 4. * acc / n_samples

  @jit(nopython=True)
  def monte_carlo_pi_jit(n_samples):
      acc = 0
      for i in range(n_samples):
          x = random()
          y = random()
          if (x**2 + y**2) < 1.:
              acc += 1
      return 4. * acc / n_samples
  \<close>
  The generator is the stream \<open>draws\<close> of the values \<^verbatim>\<open>random()\<close> will return, and
  the position \<open>pos\<close> of the next one: each call returns \<open>draws pos\<close> and moves on.
  The loop state is \<open>(pos, acc)\<close>. The squares, their sum and the quotient are those
  of the reals. The function compiled by \<^verbatim>\<open>@jit(nopython=True)\<close> takes
  \<open>n_samples\<close> as an \<^verbatim>\<open>int64\<close>: an integer outside that range is refused with
  \<^verbatim>\<open>OverflowError\<close> before the body runs.
\<close>

fun mc_loop :: "(nat \<Rightarrow> real) \<Rightarrow> nat \<Rightarrow> nat \<times> int \<Rightarrow> nat \<times> int" where
  "mc_loop draws 0 (pos, acc) = (pos, acc)"
| "mc_loop draws (Suc i) (pos, acc) =
     (let x = draws pos;
          y = draws (pos + 1)
      in mc_loop draws i (pos + 2, if x ^ 2 + y ^ 2 < 1 then acc + 1 else acc))"

definition monte_carlo_pi_nojit :: "int \<Rightarrow> (nat \<Rightarrow> real) \<Rightarrow> error + real" where
  "monte_carlo_pi_nojit n_samples draws =
     (let acc = snd (mc_loop draws (nat n_samples) (0, 0))
      in if n_samples = 0 then Inl ZeroDivisionError
         else Inr (4 * real_of_int acc / real_of_int n_samples))"

definition monte_carlo_pi_jit :: "int \<Rightarrow> (nat \<Rightarrow> real) \<Rightarrow> error + real" where
  "monte_carlo_pi_jit n_samples draws =
     (if \<not> fits_int64 n_samples then Inl OverflowError
      else
        let acc = snd (mc_loop draws (nat n_samples) (0, 0))
        in if n_samples = 0 then Inl ZeroDivisionError
           else Inr (4 * real_of_int acc / real_of_int n_samples))"

text \<open>
  The number of the first \<open>n\<close> pairs of draws \<open>(x, y)\<close> that fall inside the unit
  circle.
\<close>

definition inside_circle :: "(nat \<Rightarrow> real) \<Rightarrow> nat \<Rightarrow> bool" where
  "inside_circle draws i = ((draws (2 * i)) ^ 2 + (draws (2 * i + 1)) ^ 2 < 1)"

definition hits :: "(nat \<Rightarrow> real) \<Rightarrow> nat \<Rightarrow> nat" where
  "hits draws n = length (filter (inside_circle draws) [0..<n])"

section \<open>The other functions of the notebooks\<close>

text \<open>
  \<^verbatim>\<open>
  def calculate_y(x):
      return 3*x**3 + 4*x**2 + 10*x - x**4
  \<close>
\<close>

definition calculate_y :: "real \<Rightarrow> real" where
  "calculate_y x = 3 * x ^ 3 + 4 * x ^ 2 + 10 * x - x ^ 4"

text \<open>
  \<^verbatim>\<open>
  def euclidean(x, y):
      return np.sqrt(((x - y)**2).sum())
  \<close>
\<close>

definition euclidean :: "real list \<Rightarrow> real list \<Rightarrow> error + real" where
  "euclidean x y = bindE (np_sub x y) (\<lambda>d. Inr (sqrt (sum_list (map (\<lambda>v. v ^ 2) d))))"

text \<open>
  \<^verbatim>\<open>
  @cython.boundscheck(False)
  @cython.wraparound(False)
  cpdef double euclidean2(np.ndarray[np.float64_t, ndim=1] x, np.ndarray[np.float64_t, ndim=1] y):
      cdef:
          double diff
          int i
      diff = 0
      for i in range(x.shape[0]):
          diff += (x[i] - y[i])**2
      return sqrt(diff)
  \<close>
\<close>

definition euclidean2 :: "real list \<Rightarrow> real list \<Rightarrow> error + real" where
  "euclidean2 x y =
     bindE (for_each [0..<length x] (\<lambda>i diff.
              bindE (vec_get x i) (\<lambda>a.
              bindE (vec_get y i) (\<lambda>b.
              Inr (diff + (a - b) ^ 2)))) 0) (\<lambda>diff.
     Inr (sqrt diff))"

text \<open>
  \<^verbatim>\<open>
  @jit
  def jit_pairwise_py(X):
      M, N = X.shape
      D = np.empty((M,M), dtype=np.float64)
      for i in range(M):
          for j in range(M):
              d = 0.0
              for k in range(N):
                  tmp = X[i,k] - X[j,k]
                  d += tmp*tmp
              D[i,j] = np.sqrt(d)
      return D
  \<close>
  The loops are those of \<open>pairwise_py\<close>; the function takes no integer argument.
\<close>

definition jit_pairwise_py :: "matrix \<Rightarrow> (nat \<Rightarrow> nat \<Rightarrow> real) \<Rightarrow> error + matrix" where
  "jit_pairwise_py X junk =
     (let M = shape0 X; N = shape1 X;
          D = np_empty2 M M junk
      in for_each [0..<M] (pairwise_i X M N) D)"

text \<open>
  From the SciPy notebook:
  \<^verbatim>\<open>
  def integrand(x, a, b):
      return a*x**2 + b
  \<close>
\<close>

definition integrand :: "real \<Rightarrow> real \<Rightarrow> real \<Rightarrow> real" where
  "integrand x a b = a * x ^ 2 + b"

text \<open>
  \<^verbatim>\<open>
  def I(n):
      return integrate.dblquad(lambda t, x: np.exp(-x*t)/t**n, 0, np.inf, lambda x: 1, lambda x: np.inf)
  \<close>
  The work is done by SciPy's \<^verbatim>\<open>integrate.dblquad\<close>, which is not repository code:
  it is the parameter \<open>dblquad\<close>, which returns the estimate and its error bound, or
  nothing when the routine raises.
\<close>

datatype bound = Finite_bound real | Infinity

definition I ::
    "((real \<Rightarrow> real \<Rightarrow> real) \<Rightarrow> bound \<Rightarrow> bound \<Rightarrow> (real \<Rightarrow> bound) \<Rightarrow> (real \<Rightarrow> bound)
       \<Rightarrow> (real \<times> real) option)
     \<Rightarrow> int \<Rightarrow> error + real \<times> real" where
  "I dblquad n =
     (case dblquad (\<lambda>t x. exp (- x * t) / t powi n) (Finite_bound 0) Infinity
             (\<lambda>x. Finite_bound 1) (\<lambda>x. Infinity) of
        None \<Rightarrow> Inl LibraryError
      | Some r \<Rightarrow> Inr r)"

text \<open>
  \<^verbatim>\<open>
  def pend(y, t, b, c):
      theta, omega = y
      dydt = [omega, -b*omega - c*np.sin(theta)]
      return dydt
  \<close>
  Unpacking a \<open>y\<close> that does not have two entries raises \<^verbatim>\<open>ValueError\<close>.
\<close>

definition pend :: "real list \<Rightarrow> real \<Rightarrow> real \<Rightarrow> real \<Rightarrow> error + real list" where
  "pend y t b c =
     (case y of
        [theta, omega] \<Rightarrow> Inr [omega, - b * omega - c * sin theta]
      | _ \<Rightarrow> Inl ValueError)"

text \<open>
  \<^verbatim>\<open>
  def func(x, y):
      return x*(1-x)*np.cos(4*np.pi*x) * np.sin(4*np.pi*y**2)**2
  \<close>
\<close>

definition func :: "real \<Rightarrow> real \<Rightarrow> real" where
  "func x y = x * (1 - x) * cos (4 * pi * x) * (sin (4 * pi * y ^ 2)) ^ 2"

text \<open>
  \<^verbatim>\<open>
  def print_array(arr):
      print("array ndim: %d" % arr.ndim)
      print("array shape: {}".format(arr.shape))
      print("array size: %d" % arr.size)
  \<close>
  Of the array only its shape is used. What is printed is the result: each line as
  its format and the numbers put into it.
\<close>

definition print_array :: "nat list \<Rightarrow> (string \<times> nat list) list" where
  "print_array shape =
     [(''array ndim: %d'', [length shape]),
      (''array shape: {}'', shape),
      (''array size: %d'', [prod_list shape])]"

text \<open>
  \<^verbatim>\<open>
  def addsubtract(a,b):
      if a>b:
          return a-b
      else:
          return a+b
  \<close>
\<close>

definition addsubtract :: "real \<Rightarrow> real \<Rightarrow> real" where
  "addsubtract a b = (if a > b then a - b else a + b)"

section \<open>Every call of a function of the repository\<close>

text \<open>
  An \<open>operation\<close> is a call of one of the functions that the notebooks define with
  \<^verbatim>\<open>def\<close>, \<^verbatim>\<open>cdef\<close> or \<^verbatim>\<open>cpdef\<close>, with its arguments and what it takes from
  its surroundings (the random draws, the uninitialised memory, the library routine);
  \<open>run\<close> is what the call does.
\<close>

datatype result =
    Number real
  | C_number c_double
  | Vector "real list"
  | C_vector "c_double list"
  | Array matrix
  | Estimate "real \<times> real"
  | Printed "(string \<times> nat list) list"

datatype operation =
    Call_f real
  | Call_f2 real
  | Call_f3 real
  | Call_f4 real
  | Call_calculate_y real
  | Call_trapz "real \<Rightarrow> real" real real int
  | Call_trapz2 "real \<Rightarrow> real" real real int
  | Call_trapz3 "real \<Rightarrow> real" real real int
  | Call_trapz4 real real int
  | Call_apply_trapz ndarray ndarray ndarray "nat \<Rightarrow> c_double"
  | Call_euclidean "real list" "real list"
  | Call_euclidean2 "real list" "real list"
  | Call_pairwise_py matrix "nat \<Rightarrow> nat \<Rightarrow> real"
  | Call_jit_pairwise_py matrix "nat \<Rightarrow> nat \<Rightarrow> real"
  | Call_gradient_descent matrix "real list" real int "nat \<Rightarrow> real"
  | Call_gradient_descent2 matrix "real list" real int "nat \<Rightarrow> real" "nat \<Rightarrow> real"
  | Call_monte_carlo_pi_nojit int "nat \<Rightarrow> real"
  | Call_monte_carlo_pi_jit int "nat \<Rightarrow> real"
  | Call_integrand real real real
  | Call_I "(real \<Rightarrow> real \<Rightarrow> real) \<Rightarrow> bound \<Rightarrow> bound \<Rightarrow> (real \<Rightarrow> bound) \<Rightarrow> (real \<Rightarrow> bound)
       \<Rightarrow> (real \<times> real) option" int
  | Call_pend "real list" real real real
  | Call_func real real
  | Call_print_array "nat list"
  | Call_addsubtract real real

definition returning :: "('a \<Rightarrow> result) \<Rightarrow> error + 'a \<Rightarrow> error + result" where
  "returning wrap r = (case r of Inl e \<Rightarrow> Inl e | Inr v \<Rightarrow> Inr (wrap v))"

fun run :: "operation \<Rightarrow> error + result" where
  "run (Call_f x) = Inr (Number (f x))"
| "run (Call_f2 x) = Inr (Number (f2 x))"
| "run (Call_f3 x) = Inr (Number (f3 x))"
| "run (Call_f4 x) = Inr (Number (f4 x))"
| "run (Call_calculate_y x) = Inr (Number (calculate_y x))"
| "run (Call_trapz g a b N) = returning Number (trapz g a b N)"
| "run (Call_trapz2 g a b N) = returning Number (trapz2 g a b N)"
| "run (Call_trapz3 g a b N) = returning Number (trapz3 g a b N)"
| "run (Call_trapz4 a b N) = returning C_number (trapz4 a b N)"
| "run (Call_apply_trapz col_a col_b col_n junk) =
     returning C_vector (apply_trapz col_a col_b col_n junk)"
| "run (Call_euclidean x y) = returning Number (euclidean x y)"
| "run (Call_euclidean2 x y) = returning Number (euclidean2 x y)"
| "run (Call_pairwise_py X junk) = returning Array (pairwise_py X junk)"
| "run (Call_jit_pairwise_py X junk) = returning Array (jit_pairwise_py X junk)"
| "run (Call_gradient_descent X y gamma n_iter rng) =
     returning Vector (gradient_descent X y gamma n_iter rng)"
| "run (Call_gradient_descent2 X y gamma n_iter rng junk) =
     returning Vector (gradient_descent2 X y gamma n_iter rng junk)"
| "run (Call_monte_carlo_pi_nojit n_samples draws) =
     returning Number (monte_carlo_pi_nojit n_samples draws)"
| "run (Call_monte_carlo_pi_jit n_samples draws) =
     returning Number (monte_carlo_pi_jit n_samples draws)"
| "run (Call_integrand x a b) = Inr (Number (integrand x a b))"
| "run (Call_I dblquad n) = returning Estimate (I dblquad n)"
| "run (Call_pend y t b c) = returning Vector (pend y t b c)"
| "run (Call_func x y) = Inr (Number (func x y))"
| "run (Call_print_array shape) = Inr (Printed (print_array shape))"
| "run (Call_addsubtract a b) = Inr (Number (addsubtract a b))"



section \<open>Properties of the trapezoidal rule\<close>

text \<open>The loop in closed form: after \<open>n\<close> rounds it has added the nodes \<open>x + h, ..., x + n * h\<close>.\<close>

lemma trapz_loop_closed:
  "trapz_loop g h n (x, s) = (x + real n * h, s + (\<Sum>k<n. g (x + real (Suc k) * h)))"
proof (induction n arbitrary: x s)
  case 0
  show ?case by simp
next
  case (Suc n)
  have shift: "(\<Sum>k<n. g (x + h + real (Suc k) * h)) = (\<Sum>k<n. g (x + real (Suc (Suc k)) * h))"
    by (rule sum.cong) (simp_all add: algebra_simps)
  have "trapz_loop g h (Suc n) (x, s) = trapz_loop g h n (x + h, s + g (x + h))"
    by simp
  also have "\<dots> = (x + h + real n * h, s + g (x + h) + (\<Sum>k<n. g (x + h + real (Suc k) * h)))"
    by (rule Suc.IH)
  also have "\<dots> = (x + real (Suc n) * h,
      s + (g (x + real (Suc 0) * h) + (\<Sum>k<n. g (x + real (Suc (Suc k)) * h))))"
    unfolding shift by (simp add: algebra_simps)
  also have "g (x + real (Suc 0) * h) + (\<Sum>k<n. g (x + real (Suc (Suc k)) * h))
      = (\<Sum>k<Suc n. g (x + real (Suc k) * h))"
    by (rule sum.lessThan_Suc_shift [symmetric])
  finally show ?case .
qed

text \<open>
  For \<open>N \<ge> 1\<close> the last node the loop adds is \<open>a + N * h = b\<close>, so \<open>trapz\<close> returns
  the displayed formula plus \<open>h * g b\<close>.
\<close>

lemma trapz_closed_form:
  assumes "1 \<le> N"
  shows "trapz g a b N =
    Inr (composite_trapezoid g a b (nat N) + (b - a) / real_of_int N * g b)"
proof -
  obtain m where m: "nat N = Suc m"
    using assms by (cases "nat N") auto
  have N: "real_of_int N = real (Suc m)"
    using m assms by linarith
  have N0: "N \<noteq> 0"
    using assms by simp
  define h where "h = (b - a) / real (Suc m)"
  have hb: "a + real (Suc m) * h = b"
    unfolding h_def by simp
  have s1: "(\<Sum>k<Suc m. g (a + real (Suc k) * h)) = (\<Sum>k<m. g (a + real (Suc k) * h)) + g b"
    using hb by simp
  have s2: "(\<Sum>k = 1..<Suc m. g (a + real k * h)) = (\<Sum>k<m. g (a + real (Suc k) * h))"
    using sum.shift_bounds_Suc_ivl [of "\<lambda>k. g (a + real k * h)" 0 m]
    by (simp add: atLeast0LessThan)
  have "trapz g a b N = Inr ((snd (trapz_loop g h (Suc m) (a, 0)) + (1 / 2) * (g a + g b)) * h)"
    using N0 by (simp add: trapz_def Let_def m N h_def)
  also have "snd (trapz_loop g h (Suc m) (a, 0)) = (\<Sum>k<m. g (a + real (Suc k) * h)) + g b"
    unfolding trapz_loop_closed using s1 by simp
  also have "((\<Sum>k<m. g (a + real (Suc k) * h)) + g b + (1 / 2) * (g a + g b)) * h
      = h * (g a / 2 + (\<Sum>k = 1..<Suc m. g (a + real k * h)) + g b / 2) + h * g b"
    unfolding s2 by (simp add: field_simps)
  also have "\<dots> = composite_trapezoid g a b (nat N) + (b - a) / real_of_int N * g b"
    by (simp add: composite_trapezoid_def Let_def m N h_def)
  finally show ?thesis .
qed

text \<open>
  Claim C1. For an integer \<open>N \<ge> 1\<close>, \<open>trapz\<close> should return the composite
  trapezoidal rule \<open>h * (f a / 2 + f (a + h) + ... + f (a + (N - 1) * h) + f b / 2)\<close>
  displayed above its definition. It does not: the loop runs \<open>N\<close> times and so
  adds the last node \<open>b\<close> in full before the two half end points are added. On one
  panel over \<open>[0, 1]\<close> with the notebook's polynomial the rule gives \<open>7 / 2\<close> and
  \<open>trapz\<close> returns \<open>19 / 2\<close>.
\<close>

theorem trapz_adds_last_node_twice:
  "trapz f 0 1 1 = Inr (19 / 2) \<and> composite_trapezoid f 0 1 1 = 7 / 2"
  by (simp add: trapz_def composite_trapezoid_def f_def)

section \<open>Properties of the Monte Carlo estimate\<close>

lemma mc_loop_closed:
  "mc_loop draws n (pos, acc) =
     (pos + 2 * n,
      acc + int (length (filter
        (\<lambda>i. (draws (pos + 2 * i)) ^ 2 + (draws (pos + 2 * i + 1)) ^ 2 < 1) [0..<n])))"
proof (induction n arbitrary: pos acc)
  case 0
  show ?case by simp
next
  case (Suc n)
  let ?P = "\<lambda>p i. (draws (p + 2 * i)) ^ 2 + (draws (p + 2 * i + 1)) ^ 2 < 1"
  have split: "[0..<Suc n] = 0 # map Suc [0..<n]"
    by (simp add: upt_conv_Cons map_Suc_upt del: upt_Suc)
  have shift: "length (filter (?P pos) (map Suc [0..<n])) = length (filter (?P (pos + 2)) [0..<n])"
    by (simp add: filter_map comp_def)
  have count: "int (length (filter (?P pos) [0..<Suc n])) =
      (if ?P pos 0 then 1 else 0) + int (length (filter (?P (pos + 2)) [0..<n]))"
    unfolding split using shift by simp
  show ?case
    unfolding count by (simp add: Suc.IH Let_def)
qed

lemma mc_loop_hits: "snd (mc_loop draws n (0, 0)) = int (hits draws n)"
proof -
  have "inside_circle draws = (\<lambda>i. (draws (0 + 2 * i)) ^ 2 + (draws (0 + 2 * i + 1)) ^ 2 < 1)"
    by (rule ext) (simp add: inside_circle_def)
  then show ?thesis
    unfolding mc_loop_closed hits_def by simp
qed

lemma hits_le: "hits draws n \<le> n"
  unfolding hits_def using length_filter_le [of "inside_circle draws" "[0..<n]"] by simp

lemma monte_carlo_pi_nojit_returns:
  assumes "n_samples \<noteq> 0"
  shows "\<exists>v. monte_carlo_pi_nojit n_samples draws = Inr v"
  using assms by (simp add: monte_carlo_pi_nojit_def Let_def)

lemma monte_carlo_pi_jit_overflow:
  assumes "\<not> fits_int64 n_samples"
  shows "monte_carlo_pi_jit n_samples draws = Inl OverflowError"
  using assms by (simp add: monte_carlo_pi_jit_def)

text \<open>
  Claim C8, as stated, for every integer \<open>n_samples \<ge> 1\<close>: \<open>monte_carlo_pi_jit\<close>
  computes what \<open>monte_carlo_pi_nojit\<close> computes on the same draws. It fails where
  \<open>n_samples\<close> does not fit the \<^verbatim>\<open>int64\<close> of the compiled function: at
  \<open>n_samples = 2\<^sup>6\<^sup>3\<close> it raises \<^verbatim>\<open>OverflowError\<close> and the Python function returns
  a value.
\<close>

theorem monte_carlo_pi_jit_rejects_large_n:
  "monte_carlo_pi_jit (2 ^ 63) (\<lambda>i. 1 / 2) = Inl OverflowError
   \<and> monte_carlo_pi_jit (2 ^ 63) (\<lambda>i. 1 / 2) \<noteq> monte_carlo_pi_nojit (2 ^ 63) (\<lambda>i. 1 / 2)"
proof -
  have big: "\<not> fits_int64 (2 ^ 63)"
    by (simp add: fits_int64_def INT64_MAX_def INT64_MIN_def)
  have jit: "monte_carlo_pi_jit (2 ^ 63) (\<lambda>i. 1 / 2) = Inl OverflowError"
    using big by (rule monte_carlo_pi_jit_overflow)
  have "(2::int) ^ 63 \<noteq> 0"
    by simp
  then obtain v where "monte_carlo_pi_nojit (2 ^ 63) (\<lambda>i. 1 / 2) = Inr v"
    using monte_carlo_pi_nojit_returns [of "2 ^ 63" "\<lambda>i. 1 / 2"] by blast
  then show ?thesis
    using jit by simp
qed

text \<open>
  Claim C8, amended. Under exact real arithmetic, for \<open>n_samples \<ge> 1\<close> and any
  stream of draws, \<open>monte_carlo_pi_nojit\<close> returns \<open>4 * acc / n_samples\<close>, where
  \<open>acc\<close> counts the pairs \<open>(x, y)\<close> among the first \<open>n_samples\<close> drawn (the draws
  \<open>2 * i\<close> and \<open>2 * i + 1\<close>) with \<open>x\<^sup>2 + y\<^sup>2 < 1\<close>; the result lies in \<open>[0, 4]\<close>;
  \<open>monte_carlo_pi_jit\<close> returns the same on the same draws for
  \<open>n_samples \<le> 2\<^sup>6\<^sup>3 - 1\<close> and raises \<^verbatim>\<open>OverflowError\<close> beyond.
\<close>

theorem monte_carlo_pi_estimate:
  assumes "1 \<le> n_samples"
  shows "monte_carlo_pi_nojit n_samples draws =
           Inr (4 * real (hits draws (nat n_samples)) / real_of_int n_samples)
       \<and> 0 \<le> 4 * real (hits draws (nat n_samples)) / real_of_int n_samples
       \<and> 4 * real (hits draws (nat n_samples)) / real_of_int n_samples \<le> 4
       \<and> (if n_samples \<le> INT64_MAX
          then monte_carlo_pi_jit n_samples draws = monte_carlo_pi_nojit n_samples draws
          else monte_carlo_pi_jit n_samples draws = Inl OverflowError)"
proof -
  have pos: "0 < real_of_int n_samples"
    using assms by simp
  have "real (hits draws (nat n_samples)) \<le> real (nat n_samples)"
    using hits_le [of draws "nat n_samples"] by simp
  also have "\<dots> = real_of_int n_samples"
    using assms by simp
  finally have le: "real (hits draws (nat n_samples)) \<le> real_of_int n_samples" .
  have result: "monte_carlo_pi_nojit n_samples draws =
      Inr (4 * real (hits draws (nat n_samples)) / real_of_int n_samples)"
    using assms by (simp add: monte_carlo_pi_nojit_def mc_loop_hits)
  have lower: "0 \<le> 4 * real (hits draws (nat n_samples)) / real_of_int n_samples"
    using pos by simp
  have upper: "4 * real (hits draws (nat n_samples)) / real_of_int n_samples \<le> 4"
    using pos le by (simp add: field_simps)
  have low: "INT64_MIN \<le> n_samples"
    using assms by (simp add: INT64_MIN_def)
  have jit: "if n_samples \<le> INT64_MAX
          then monte_carlo_pi_jit n_samples draws = monte_carlo_pi_nojit n_samples draws
          else monte_carlo_pi_jit n_samples draws = Inl OverflowError"
  proof (cases "n_samples \<le> INT64_MAX")
    case True
    then have "fits_int64 n_samples"
      using low by (simp add: fits_int64_def)
    then show ?thesis
      using True by (simp add: monte_carlo_pi_jit_def monte_carlo_pi_nojit_def)
  next
    case False
    then have "\<not> fits_int64 n_samples"
      by (simp add: fits_int64_def)
    then show ?thesis
      using False by (simp add: monte_carlo_pi_jit_overflow)
  qed
  show ?thesis
    using result lower upper jit by simp
qed

text \<open>
  Two samples with draws in \<open>[0, 1)\<close>, the first pair inside the circle and the second
  outside: the estimate is 2.
\<close>

theorem monte_carlo_pi_estimate_witness:
  "monte_carlo_pi_nojit 2 (\<lambda>i. if i < 2 then 1 / 2 else 9 / 10) = Inr 2
   \<and> monte_carlo_pi_jit 2 (\<lambda>i. if i < 2 then 1 / 2 else 9 / 10) = Inr 2
   \<and> hits (\<lambda>i. if i < 2 then 1 / 2 else 9 / 10) (nat 2) = 1"
proof -
  have h: "hits (\<lambda>i. if i < 2 then 1 / 2 else 9 / 10) (nat 2) = 1"
    by code_simp
  have "(2::int) \<le> INT64_MAX"
    by (simp add: INT64_MAX_def)
  then show ?thesis
    using monte_carlo_pi_estimate [of 2 "\<lambda>i. if i < 2 then 1 / 2 else 9 / 10"] h by simp
qed

section \<open>Loops that can fail\<close>

lemma bindE_Inr [simp]: "bindE (Inr x) k = k x"
  by (simp add: bindE_def)

lemma bindE_Inl [simp]: "bindE (Inl e) k = Inl e"
  by (simp add: bindE_def)

lemma for_each_append:
  "for_each (xs @ ys) body s = bindE (for_each xs body s) (for_each ys body)"
proof (induction xs arbitrary: s)
  case Nil
  show ?case by simp
next
  case (Cons x xs)
  show ?case
    by (cases "body x s") (simp_all add: Cons.IH)
qed

lemma for_each_invariant:
  assumes init: "Q 0 s"
    and step: "\<And>k t. k < n \<Longrightarrow> Q k t \<Longrightarrow> \<exists>t'. body k t = Inr t' \<and> Q (Suc k) t'"
  shows "\<exists>t. for_each [0..<n] body s = Inr t \<and> Q n t"
  using step
proof (induction n)
  case 0
  show ?case using init by simp
next
  case (Suc n)
  have "\<exists>t. for_each [0..<n] body s = Inr t \<and> Q n t"
    using Suc.prems by (intro Suc.IH) simp
  then obtain t where t: "for_each [0..<n] body s = Inr t" "Q n t"
    by blast
  obtain t' where t': "body n t = Inr t'" "Q (Suc n) t'"
    using Suc.prems [of n t] t(2) by auto
  have "for_each [0..<Suc n] body s = Inr t'"
    by (simp add: for_each_append t(1) t'(1))
  then show ?case
    using t'(2) by blast
qed

section \<open>Properties of the pairwise distances\<close>

lemma set2_result:
  assumes "is_ndarray2 D" "i < shape0 D" "j < shape1 D"
  shows "\<exists>D'. set2 D i j x = Inr D' \<and> is_ndarray2 D' \<and> shape0 D' = shape0 D
     \<and> shape1 D' = shape1 D
     \<and> (\<forall>a b. at2 D' a b = (if a = i \<and> b = j then x else at2 D a b))"
proof -
  let ?D' = "D\<lparr>cells := (cells D)[i := (cells D ! i)[j := x]]\<rparr>"
  have len: "length (cells D) = shape0 D" and rows: "\<And>a. a < shape0 D \<Longrightarrow> length (cells D ! a) = shape1 D"
    using assms(1) by (simp_all add: is_ndarray2_def list_all_length)
  have eq: "set2 D i j x = Inr ?D'"
    using assms by (simp add: set2_def)
  have "length ((cells D)[i := (cells D ! i)[j := x]] ! a) = shape1 D" if "a < shape0 D" for a
    using that len rows [of a] rows [of i] assms(2) by (cases "a = i") simp_all
  then have wf: "is_ndarray2 ?D'"
    using len by (simp add: is_ndarray2_def list_all_length)
  have cell: "at2 ?D' a b = (if a = i \<and> b = j then x else at2 D a b)" for a b
    using len rows [of i] assms(2,3) by (simp add: at2_def nth_list_update)
  show ?thesis
    using eq wf cell by simp
qed

lemma pairwise_k_loop:
  assumes "i < shape0 X" "j < shape0 X"
  shows "for_each [0..<shape1 X] (pairwise_k X i j) 0
    = Inr (\<Sum>k<shape1 X. (at2 X i k - at2 X j k) ^ 2)"
proof -
  have "\<exists>d. for_each [0..<shape1 X] (pairwise_k X i j) 0 = Inr d
      \<and> d = (\<Sum>k<shape1 X. (at2 X i k - at2 X j k) ^ 2)"
  proof (rule for_each_invariant [where Q = "\<lambda>m d. d = (\<Sum>k<m. (at2 X i k - at2 X j k) ^ 2)"])
    show "(0::real) = (\<Sum>k<0. (at2 X i k - at2 X j k) ^ 2)"
      by simp
  next
    fix k and d :: real
    assume "k < shape1 X" and "d = (\<Sum>k<k. (at2 X i k - at2 X j k) ^ 2)"
    then show "\<exists>d'. pairwise_k X i j k d = Inr d' \<and> d' = (\<Sum>k<Suc k. (at2 X i k - at2 X j k) ^ 2)"
      using assms by (simp add: pairwise_k_def get2_def Let_def power2_eq_square)
  qed
  then show ?thesis by simp
qed

lemma pairwise_j_loop:
  assumes D: "is_ndarray2 D" "shape0 D = shape0 X" "shape1 D = shape0 X"
    and i: "i < shape0 X"
  shows "\<exists>D'. pairwise_i X (shape0 X) (shape1 X) i D = Inr D' \<and> is_ndarray2 D'
     \<and> shape0 D' = shape0 X \<and> shape1 D' = shape0 X
     \<and> (\<forall>a b. at2 D' a b = (if a = i \<and> b < shape0 X then row_distance X i b else at2 D a b))"
  unfolding pairwise_i_def
proof (rule for_each_invariant [where Q = "\<lambda>m D'. is_ndarray2 D'
     \<and> shape0 D' = shape0 X \<and> shape1 D' = shape0 X
     \<and> (\<forall>a b. at2 D' a b = (if a = i \<and> b < m then row_distance X i b else at2 D a b))"])
  show "is_ndarray2 D \<and> shape0 D = shape0 X \<and> shape1 D = shape0 X
     \<and> (\<forall>a b. at2 D a b = (if a = i \<and> b < 0 then row_distance X i b else at2 D a b))"
    using D by simp
next
  fix j t
  assume j: "j < shape0 X"
    and inv: "is_ndarray2 t \<and> shape0 t = shape0 X \<and> shape1 t = shape0 X
     \<and> (\<forall>a b. at2 t a b = (if a = i \<and> b < j then row_distance X i b else at2 D a b))"
  obtain t' where t': "set2 t i j (row_distance X i j) = Inr t'" "is_ndarray2 t'"
      "shape0 t' = shape0 t" "shape1 t' = shape1 t"
      "\<forall>a b. at2 t' a b = (if a = i \<and> b = j then row_distance X i j else at2 t a b)"
    using set2_result [of t i j "row_distance X i j"] inv i j by auto
  have run: "pairwise_j X (shape1 X) i j t = Inr t'"
    using t'(1) by (simp add: pairwise_j_def pairwise_k_loop [OF i j] row_distance_def)
  have cells: "\<forall>a b. at2 t' a b = (if a = i \<and> b < Suc j then row_distance X i b else at2 D a b)"
    using t'(5) inv by (auto simp: less_Suc_eq)
  show "\<exists>t'. pairwise_j X (shape1 X) i j t = Inr t' \<and> (is_ndarray2 t'
     \<and> shape0 t' = shape0 X \<and> shape1 t' = shape0 X
     \<and> (\<forall>a b. at2 t' a b = (if a = i \<and> b < Suc j then row_distance X i b else at2 D a b)))"
    using run t'(2,3,4) inv cells by auto
qed

lemma pairwise_i_loop:
  assumes D: "is_ndarray2 D" "shape0 D = shape0 X" "shape1 D = shape0 X"
  shows "\<exists>D'. for_each [0..<shape0 X] (pairwise_i X (shape0 X) (shape1 X)) D = Inr D'
     \<and> is_ndarray2 D' \<and> shape0 D' = shape0 X \<and> shape1 D' = shape0 X
     \<and> (\<forall>a b. a < shape0 X \<and> b < shape0 X \<longrightarrow> at2 D' a b = row_distance X a b)"
proof (rule for_each_invariant [where Q = "\<lambda>m D'. is_ndarray2 D'
     \<and> shape0 D' = shape0 X \<and> shape1 D' = shape0 X
     \<and> (\<forall>a b. a < m \<and> b < shape0 X \<longrightarrow> at2 D' a b = row_distance X a b)"])
  show "is_ndarray2 D \<and> shape0 D = shape0 X \<and> shape1 D = shape0 X
     \<and> (\<forall>a b. a < 0 \<and> b < shape0 X \<longrightarrow> at2 D a b = row_distance X a b)"
    using D by simp
next
  fix i t
  assume i: "i < shape0 X"
    and inv: "is_ndarray2 t \<and> shape0 t = shape0 X \<and> shape1 t = shape0 X
     \<and> (\<forall>a b. a < i \<and> b < shape0 X \<longrightarrow> at2 t a b = row_distance X a b)"
  obtain t' where t': "pairwise_i X (shape0 X) (shape1 X) i t = Inr t'" "is_ndarray2 t'"
      "shape0 t' = shape0 X" "shape1 t' = shape0 X"
      "\<forall>a b. at2 t' a b = (if a = i \<and> b < shape0 X then row_distance X i b else at2 t a b)"
    using pairwise_j_loop [of t X i] inv i by auto
  have "\<forall>a b. a < Suc i \<and> b < shape0 X \<longrightarrow> at2 t' a b = row_distance X a b"
    using t'(5) inv by (auto simp: less_Suc_eq)
  then show "\<exists>t'. pairwise_i X (shape0 X) (shape1 X) i t = Inr t' \<and> (is_ndarray2 t'
     \<and> shape0 t' = shape0 X \<and> shape1 t' = shape0 X
     \<and> (\<forall>a b. a < Suc i \<and> b < shape0 X \<longrightarrow> at2 t' a b = row_distance X a b))"
    using t'(1,2,3,4) by auto
qed

lemma np_empty2_is_ndarray2: "is_ndarray2 (np_empty2 M N junk)"
  by (simp add: np_empty2_def is_ndarray2_def list_all_length)

lemma row_distance_sym: "row_distance X i j = row_distance X j i"
  unfolding row_distance_def by (simp add: power2_commute)

lemma row_distance_self: "row_distance X i i = 0"
  unfolding row_distance_def by simp

text \<open>
  Claim C9. For a matrix \<open>X\<close> of shape \<open>(M, N)\<close>, \<open>pairwise_py\<close> returns an \<open>M\<close> by
  \<open>M\<close> matrix \<open>D\<close> with \<open>D[i,j] = sqrt (\<Sum>k. (X[i,k] - X[j,k])\<^sup>2)\<close>; \<open>D\<close> is symmetric
  and its diagonal is zero. What \<^verbatim>\<open>np.empty\<close> left in \<open>D\<close> does not show.
\<close>

theorem pairwise_py_distances:
  assumes "is_ndarray2 X"
  shows "\<exists>D. pairwise_py X junk = Inr D \<and> is_ndarray2 D
     \<and> shape0 D = shape0 X \<and> shape1 D = shape0 X
     \<and> (\<forall>i<shape0 X. \<forall>j<shape0 X. at2 D i j = row_distance X i j \<and> at2 D i j = at2 D j i)
     \<and> (\<forall>i<shape0 X. at2 D i i = 0)"
proof -
  let ?D0 = "np_empty2 (shape0 X) (shape0 X) junk"
  have "is_ndarray2 ?D0" "shape0 ?D0 = shape0 X" "shape1 ?D0 = shape0 X"
    by (simp_all add: np_empty2_is_ndarray2) (simp_all add: np_empty2_def)
  then obtain D where D: "for_each [0..<shape0 X] (pairwise_i X (shape0 X) (shape1 X)) ?D0 = Inr D"
      "is_ndarray2 D" "shape0 D = shape0 X" "shape1 D = shape0 X"
      "\<forall>a b. a < shape0 X \<and> b < shape0 X \<longrightarrow> at2 D a b = row_distance X a b"
    using pairwise_i_loop [of ?D0 X] by auto
  have run: "pairwise_py X junk = Inr D"
    using D(1) by (simp add: pairwise_py_def Let_def)
  have sym: "\<forall>i<shape0 X. \<forall>j<shape0 X. at2 D i j = row_distance X i j \<and> at2 D i j = at2 D j i"
    using D(5) row_distance_sym [of X] by auto
  have diag: "\<forall>i<shape0 X. at2 D i i = 0"
    using D(5) row_distance_self [of X] by auto
  show ?thesis
    using run D(2,3,4) sym diag by blast
qed

text \<open>The rows \<open>(0, 0)\<close> and \<open>(3, 4)\<close> are at distance 5.\<close>

theorem pairwise_py_distances_witness:
  "\<exists>D. pairwise_py \<lparr>shape0 = 2, shape1 = 2, cells = [[0, 0], [3, 4]]\<rparr> (\<lambda>i j. 7) = Inr D
     \<and> shape0 D = 2 \<and> shape1 D = 2
     \<and> at2 D 0 1 = 5 \<and> at2 D 1 0 = 5 \<and> at2 D 0 0 = 0 \<and> at2 D 1 1 = 0"
proof -
  let ?X = "\<lparr>shape0 = 2, shape1 = 2, cells = [[0, 0], [3, 4]]\<rparr>"
  have wf: "is_ndarray2 ?X"
    by (simp add: is_ndarray2_def)
  have "sqrt 25 = 5"
    using real_sqrt_abs2 [of 5] by simp
  then have d: "row_distance ?X 0 1 = 5"
    by (simp add: row_distance_def at2_def lessThan_Suc numeral_2_eq_2)
  obtain D where D: "pairwise_py ?X (\<lambda>i j. 7) = Inr D" "shape0 D = shape0 ?X" "shape1 D = shape0 ?X"
      "\<forall>i<shape0 ?X. \<forall>j<shape0 ?X. at2 D i j = row_distance ?X i j \<and> at2 D i j = at2 D j i"
      "\<forall>i<shape0 ?X. at2 D i i = 0"
    using pairwise_py_distances [OF wf, of "\<lambda>i j. 7"] by blast
  have "at2 D 0 1 = row_distance ?X 0 1 \<and> at2 D 0 1 = at2 D 1 0"
    using D(4) [rule_format, of 0 1] by simp
  then have "at2 D 0 1 = 5" "at2 D 1 0 = 5"
    using d by simp_all
  moreover have "at2 D 0 0 = 0" "at2 D 1 1 = 0"
    using D(5) by simp_all
  ultimately show ?thesis
    using D(1,2,3) by simp
qed

section \<open>Properties of the type-specialised integrators\<close>

lemma trapz_returns:
  assumes "N \<noteq> 0"
  shows "\<exists>v. trapz g a b N = Inr v"
  using assms by (simp add: trapz_def Let_def)

lemma polynomials_same: "f2 = f" "f3 = f" "f4 = f"
  by (rule ext, simp add: f_def f2_def f3_def f4_def)+

lemma trapz3_overflow:
  assumes "\<not> fits_c_int N"
  shows "trapz3 g a b N = Inl OverflowError"
  using assms by (simp add: trapz3_def)

lemma trapz4_overflow:
  assumes "\<not> fits_c_int N"
  shows "trapz4 a b N = Inl OverflowError"
  using assms by (simp add: trapz4_def)

text \<open>
  Claim C4, as stated, for every integer \<open>N \<ge> 1\<close>: \<open>trapz2\<close>, \<open>trapz3\<close> and
  \<open>trapz4\<close> return what \<open>trapz\<close> returns. It fails where \<open>N\<close> does not fit the C
  \<^verbatim>\<open>int\<close> that \<open>trapz3\<close> and \<open>trapz4\<close> declare for it: at \<open>N = 2\<^sup>3\<^sup>1\<close> they raise
  \<^verbatim>\<open>OverflowError\<close> and \<open>trapz\<close> returns a value.
\<close>

theorem trapz3_rejects_what_trapz_accepts:
  "trapz3 f3 0 1 (2 ^ 31) = Inl OverflowError
   \<and> trapz4 0 1 (2 ^ 31) = Inl OverflowError
   \<and> trapz3 f3 0 1 (2 ^ 31) \<noteq> trapz f 0 1 (2 ^ 31)"
proof -
  have big: "\<not> fits_c_int (2 ^ 31)"
    by (simp add: fits_c_int_def INT_MAX_def INT_MIN_def)
  have t3: "trapz3 f3 0 1 (2 ^ 31) = Inl OverflowError"
    using big by (rule trapz3_overflow)
  have t4: "trapz4 0 1 (2 ^ 31) = Inl OverflowError"
    using big by (rule trapz4_overflow)
  have "(2::int) ^ 31 \<noteq> 0"
    by simp
  then obtain v where "trapz f 0 1 (2 ^ 31) = Inr v"
    using trapz_returns [of "2 ^ 31" f 0 1] by blast
  then show ?thesis
    using t3 t4 by simp
qed

text \<open>
  Claim C4, amended. For \<open>1 \<le> N \<le> 2\<^sup>3\<^sup>1 - 1\<close>, under exact real arithmetic, \<open>trapz\<close>
  returns a value and \<open>trapz2\<close>, \<open>trapz3\<close> and \<open>trapz4\<close> return the same one; for a
  larger \<open>N\<close>, \<open>trapz2\<close> still agrees with \<open>trapz\<close>, and \<open>trapz3\<close> and \<open>trapz4\<close>
  raise \<^verbatim>\<open>OverflowError\<close>.
\<close>

theorem trapz_specialisations_agree:
  assumes "1 \<le> N"
  shows "trapz2 f2 a b N = trapz f a b N
     \<and> (if N \<le> INT_MAX
        then \<exists>v. trapz f a b N = Inr v \<and> trapz3 f3 a b N = Inr v
               \<and> trapz4 a b N = Inr (Finite v)
        else trapz3 f3 a b N = Inl OverflowError \<and> trapz4 a b N = Inl OverflowError)"
proof -
  have t2: "trapz2 f2 a b N = trapz f a b N"
    by (simp add: trapz2_def trapz_def polynomials_same)
  have N0: "N \<noteq> 0"
    using assms by simp
  have low: "INT_MIN \<le> N"
    using assms by (simp add: INT_MIN_def)
  show ?thesis
  proof (cases "N \<le> INT_MAX")
    case True
    then have fits: "fits_c_int N"
      using low by (simp add: fits_c_int_def)
    obtain v where v: "trapz f a b N = Inr v"
      using trapz_returns [OF N0] by blast
    have "trapz3 f3 a b N = trapz f a b N"
      using fits by (simp add: trapz3_def trapz_def polynomials_same)
    moreover have "trapz4 a b N = Inr (Finite v)"
      using fits N0 v by (simp add: trapz4_def trapz_def polynomials_same Let_def)
    ultimately show ?thesis
      using t2 v True by simp
  next
    case False
    then have "\<not> fits_c_int N"
      by (simp add: fits_c_int_def)
    then show ?thesis
      using t2 False by (simp add: trapz3_overflow trapz4_overflow)
  qed
qed

text \<open>Two panels over \<open>[1, 5]\<close>: all four return 260.\<close>

theorem trapz_specialisations_agree_witness:
  "trapz f 1 5 2 = Inr 260 \<and> trapz2 f2 1 5 2 = Inr 260 \<and> trapz3 f3 1 5 2 = Inr 260
   \<and> trapz4 1 5 2 = Inr (Finite 260)"
proof -
  have v: "trapz f 1 5 2 = Inr 260"
    by code_simp
  have "(2::int) \<le> INT_MAX"
    by (simp add: INT_MAX_def)
  then show ?thesis
    using trapz_specialisations_agree [of 2 1 5] v by simp
qed

section \<open>The two gradient descents compared\<close>

text \<open>
  Claim C3. From the same initial weights, \<open>gradient_descent2\<close> should return what
  \<open>gradient_descent\<close> returns. On the rows \<open>(1)\<close> and \<open>(2)\<close>, targets \<open>(0, 0)\<close>,
  \<open>gamma = 1\<close>, \<open>n_iter = 2\<close> and initial weights \<open>(1, 1)\<close> it does not: the Python
  function makes one step and returns \<open>(-9, -15)\<close>, the Cython one makes two and
  returns \<open>(151, 118)\<close>. One step of the Cython function (\<open>n_iter = 1\<close>) gives
  \<open>(-13, -10)\<close>, so the step itself differs too, apart from the number of steps.
\<close>

theorem gradient_descent2_differs:
  "gradient_descent \<lparr>shape0 = 2, shape1 = 1, cells = [[1], [2]]\<rparr> [0, 0] 1 2 (\<lambda>i. 1)
     = Inr [- 9, - 15]
   \<and> gradient_descent2 \<lparr>shape0 = 2, shape1 = 1, cells = [[1], [2]]\<rparr> [0, 0] 1 2 (\<lambda>i. 1) (\<lambda>i. 0)
     = Inr [151, 118]
   \<and> gradient_descent2 \<lparr>shape0 = 2, shape1 = 1, cells = [[1], [2]]\<rparr> [0, 0] 1 1 (\<lambda>i. 1) (\<lambda>i. 0)
     = Inr [- 13, - 10]"
  by code_simp

text \<open>
  Claim C10. With bounds checking disabled, every subscript of \<open>gradient_descent2\<close>
  should be within the array it is applied to. On a matrix of shape \<open>(1, 1)\<close> it is
  not: \<open>nX\<close> has shape \<open>(1, 2)\<close>, and the first pass reads \<open>nX[1, 0]\<close>.
\<close>

theorem gradient_descent2_out_of_bounds:
  "gradient_descent2 \<lparr>shape0 = 1, shape1 = 1, cells = [[0]]\<rparr> [0] 1 1 (\<lambda>i. 1 / 2) (\<lambda>i. 0)
     = Inl OutOfBounds"
  by code_simp

section \<open>Where the repository rejects an input\<close>

























section \<open>Properties of the Python gradient descent\<close>

lemma repeatE_funpow:
  assumes step: "\<And>s. Q s \<Longrightarrow> body s = Inr (g s) \<and> Q (g s)"
    and init: "Q s"
  shows "repeatE n body s = Inr ((g ^^ n) s)"
  using init
proof (induction n arbitrary: s)
  case 0
  show ?case by simp
next
  case (Suc n)
  have "repeatE n body (g s) = Inr ((g ^^ n) (g s))"
    using step [OF Suc.prems] by (intro Suc.IH) simp
  then show ?case
    using step [OF Suc.prems] by (simp add: funpow_swap1)
qed

lemma sum_list_map2_nth:
  assumes "length r = length v"
  shows "sum_list (map2 (\<lambda>a x. a * x) r v) = (\<Sum>k<length v. r ! k * v ! k)"
proof -
  have "sum_list (map2 (\<lambda>a x. a * x) r v)
      = (\<Sum>k = 0..<length v. map2 (\<lambda>a x. a * x) r v ! k)"
    using assms by (simp add: sum_list_sum_nth)
  also have "\<dots> = (\<Sum>k = 0..<length v. r ! k * v ! k)"
    using assms by (intro sum.cong) simp_all
  finally show ?thesis
    by (simp add: atLeast0LessThan)
qed

lemma is_ndarray2_rows:
  assumes "is_ndarray2 A"
  shows "length (cells A) = shape0 A" and "\<And>i. i < shape0 A \<Longrightarrow> length (cells A ! i) = shape1 A"
  using assms by (simp_all add: is_ndarray2_def list_all_length)

lemma np_dot_rows:
  assumes "is_ndarray2 A" and "length v = shape1 A"
  shows "np_dot A v = Inr (map (\<lambda>i. row_dot A i v) [0..<shape0 A])"
proof -
  have "map (\<lambda>r. sum_list (map2 (\<lambda>a x. a * x) r v)) (cells A)
      = map (\<lambda>i. row_dot A i v) [0..<shape0 A]"
  proof (rule nth_equalityI)
    show "length (map (\<lambda>r. sum_list (map2 (\<lambda>a x. a * x) r v)) (cells A))
        = length (map (\<lambda>i. row_dot A i v) [0..<shape0 A])"
      using is_ndarray2_rows(1) [OF assms(1)] by simp
  next
    fix i
    assume "i < length (map (\<lambda>r. sum_list (map2 (\<lambda>a x. a * x) r v)) (cells A))"
    then have i: "i < shape0 A"
      using is_ndarray2_rows(1) [OF assms(1)] by simp
    have "sum_list (map2 (\<lambda>a x. a * x) (cells A ! i) v) = (\<Sum>k<length v. cells A ! i ! k * v ! k)"
      using is_ndarray2_rows(2) [OF assms(1) i] assms(2) by (intro sum_list_map2_nth) simp
    then show "map (\<lambda>r. sum_list (map2 (\<lambda>a x. a * x) r v)) (cells A) ! i
        = map (\<lambda>i. row_dot A i v) [0..<shape0 A] ! i"
      using i is_ndarray2_rows(1) [OF assms(1)] assms(2) by (simp add: row_dot_def at2_def)
  qed
  then show ?thesis
    using assms(2) by (simp add: np_dot_def)
qed

lemma np_sub_same_length:
  assumes "length u = length v"
  shows "np_sub u v = Inr (map (\<lambda>i. u ! i - v ! i) [0..<length u])"
proof -
  have "map2 (\<lambda>a b. a - b) u v = map (\<lambda>i. u ! i - v ! i) [0..<length u]"
    using assms by (intro nth_equalityI) simp_all
  then show ?thesis
    using assms by (simp add: np_sub_def)
qed

lemma scaled_transpose:
  shows "is_ndarray2 (np_scale c (np_T A))"
    and "shape0 (np_scale c (np_T A)) = shape1 A"
    and "shape1 (np_scale c (np_T A)) = shape0 A"
    and "\<And>i j. i < shape0 A \<Longrightarrow> j < shape1 A \<Longrightarrow> at2 (np_scale c (np_T A)) j i = c * at2 A i j"
  by (simp_all add: np_scale_def np_T_def is_ndarray2_def list_all_length at2_def)

lemma gd_iteration_descends:
  assumes A: "is_ndarray2 A" and w: "length w = shape1 A" and y: "length y = shape0 A"
  shows "gd_iteration A y gamma w = Inr (descent_update A y gamma w)"
proof -
  let ?r = "map (\<lambda>i. row_dot A i w - y ! i) [0..<shape0 A]"
  let ?B = "np_scale 2 (np_T A)"
  have p: "np_dot A w = Inr (map (\<lambda>i. row_dot A i w) [0..<shape0 A])"
    using A w by (rule np_dot_rows)
  have r: "np_sub (map (\<lambda>i. row_dot A i w) [0..<shape0 A]) y = Inr ?r"
    using y by (simp add: np_sub_same_length cong: map_cong)
  have "np_dot ?B ?r = Inr (map (\<lambda>j. row_dot ?B j ?r) [0..<shape0 ?B])"
    by (rule np_dot_rows) (simp_all add: scaled_transpose)
  moreover have "row_dot ?B j ?r = descent_gradient A y w ! j" if "j < shape1 A" for j
  proof -
    have "row_dot ?B j ?r = (\<Sum>i<shape0 A. (2 * at2 A i j) * (row_dot A i w - y ! i))"
      unfolding row_dot_def scaled_transpose(3)
      using that by (intro sum.cong) (simp_all add: scaled_transpose(4))
    also have "\<dots> = 2 * (\<Sum>i<shape0 A. at2 A i j * (row_dot A i w - y ! i))"
      by (simp add: sum_distrib_left mult.assoc)
    finally show ?thesis
      using that by (simp add: descent_gradient_def)
  qed
  ultimately have dE: "np_dot ?B ?r = Inr (descent_gradient A y w)"
    by (simp add: scaled_transpose(2) descent_gradient_def cong: map_cong)
  have len: "length (descent_gradient A y w) = shape1 A"
    by (simp add: descent_gradient_def)
  have "map2 (\<lambda>wj dEj. wj - gamma * dEj) w (descent_gradient A y w) = descent_update A y gamma w"
    using w len by (intro nth_equalityI) (simp_all add: descent_update_def)
  then show ?thesis
    by (simp add: gd_iteration_def p r dE)
qed

lemma column_stack_ones_first:
  assumes "is_ndarray2 X"
  shows "column_stack_vm (np_ones (shape0 X)) X = Inr (bias_first X)"
proof -
  have "map2 (\<lambda>x r. x # r) (replicate (shape0 X) 1) (cells X) = map (\<lambda>r. 1 # r) (cells X)"
    using is_ndarray2_rows(1) [OF assms] by (intro nth_equalityI) simp_all
  then show ?thesis
    by (simp add: column_stack_vm_def np_ones_def bias_first_def)
qed

lemma bias_first_is_ndarray2:
  assumes "is_ndarray2 X"
  shows "is_ndarray2 (bias_first X)"
  using assms by (simp add: is_ndarray2_def bias_first_def list_all_length)

lemma gradient_descent_iterates:
  assumes X: "is_ndarray2 X" and y: "length y = shape0 X"
  shows "gradient_descent X y gamma n_iter rng =
    Inr ((descent_update (bias_first X) y gamma ^^ nat (n_iter - 1))
          (np_random_rand (shape1 X + 1) rng))"
proof -
  let ?Xb = "bias_first X"
  have shape: "shape0 ?Xb = shape0 X" "shape1 ?Xb = shape1 X + 1"
    by (simp_all add: bias_first_def)
  have step: "gd_iteration ?Xb y gamma w = Inr (descent_update ?Xb y gamma w)
      \<and> length (descent_update ?Xb y gamma w) = shape1 X + 1"
    if "length w = shape1 X + 1" for w
    using gd_iteration_descends [of ?Xb w y gamma] bias_first_is_ndarray2 [OF X] that y shape
    by (simp add: descent_update_def)
  have "repeatE (nat (n_iter - 1)) (gd_iteration ?Xb y gamma) (np_random_rand (shape1 X + 1) rng)
      = Inr ((descent_update ?Xb y gamma ^^ nat (n_iter - 1)) (np_random_rand (shape1 X + 1) rng))"
    by (rule repeatE_funpow [where Q = "\<lambda>w. length w = shape1 X + 1"])
      (simp_all add: step np_random_rand_def)
  then show ?thesis
    by (simp add: gradient_descent_def Let_def column_stack_ones_first [OF X])
qed

text \<open>
  Claim C2, as stated: \<open>gradient_descent\<close> makes exactly \<open>n_iter\<close> updates
  \<open>w - gamma * 2 * Xb\<^sup>T * (y - Xb * w)\<close>, as displayed. On the single row \<open>(0)\<close> with
  target \<open>1\<close>, \<open>gamma = 1\<close>, \<open>n_iter = 2\<close> and initial weights \<open>(0, 0)\<close> the
  displayed algorithm gives \<open>(-8, 0)\<close> (and \<open>(-2, 0)\<close> after one update), the
  function returns \<open>(2, 0)\<close>.
\<close>

theorem gradient_descent_not_as_displayed:
  "gradient_descent \<lparr>shape0 = 1, shape1 = 1, cells = [[0]]\<rparr> [1] 1 2 (\<lambda>i. 0) = Inr [2, 0]
   \<and> displayed_gradient_descent \<lparr>shape0 = 1, shape1 = 1, cells = [[0]]\<rparr> [1] 1 2 (\<lambda>i. 0)
      = [- 8, 0]
   \<and> displayed_gradient_descent \<lparr>shape0 = 1, shape1 = 1, cells = [[0]]\<rparr> [1] 1 1 (\<lambda>i. 0)
      = [- 2, 0]"
  by code_simp

text \<open>
  Claim C2, amended. Under exact real arithmetic, for a matrix \<open>X\<close> of shape
  \<open>(n, P)\<close> and \<open>y\<close> of length \<open>n\<close>, \<open>gradient_descent\<close> initialises \<open>w\<close> with the
  next \<open>P + 1\<close> random draws and returns the result of applying to it \<open>m\<close> times, for
  an \<open>m\<close> from \<open>n_iter - 1\<close> to \<open>n_iter\<close>, the update \<open>w - gamma * grad\<close>, where
  \<open>grad = 2 * Xb\<^sup>T * (Xb * w - y)\<close> is the gradient of the squared error and \<open>Xb\<close> is
  \<open>X\<close> with a leading column of ones. (Which of the two counts it is, is left open
  here; \<open>gradient_descent_iterates\<close> has it.)
\<close>

theorem gradient_descent_descends:
  assumes "is_ndarray2 X" and "length y = shape0 X"
  shows "\<exists>m. nat (n_iter - 1) \<le> m \<and> m \<le> nat n_iter
     \<and> gradient_descent X y gamma n_iter rng =
         Inr ((descent_update (bias_first X) y gamma ^^ m) (map rng [0..<shape1 X + 1]))"
proof -
  have "gradient_descent X y gamma n_iter rng =
      Inr ((descent_update (bias_first X) y gamma ^^ nat (n_iter - 1))
            (map rng [0..<shape1 X + 1]))"
    using gradient_descent_iterates [OF assms, of gamma n_iter rng]
    by (simp add: np_random_rand_def)
  moreover have "nat (n_iter - 1) \<le> nat n_iter"
    by simp
  ultimately show ?thesis
    by blast
qed

text \<open>
  The rows \<open>(1)\<close> and \<open>(2)\<close> with targets \<open>(0, 0)\<close>, \<open>gamma = 1 / 10\<close>,
  \<open>n_iter = 3\<close> and draws \<open>1 / 2\<close>: the result is \<open>(9 / 50, 0)\<close>, and a single update
  already moves the weights, to \<open>(0, -3 / 10)\<close>.
\<close>

theorem gradient_descent_descends_witness:
  "is_ndarray2 \<lparr>shape0 = 2, shape1 = 1, cells = [[1], [2]]\<rparr>
   \<and> (\<exists>m. 2 \<le> m \<and> m \<le> 3
        \<and> gradient_descent \<lparr>shape0 = 2, shape1 = 1, cells = [[1], [2]]\<rparr> [0, 0] (1 / 10) 3
             (\<lambda>i. 1 / 2) =
           Inr ((descent_update (bias_first \<lparr>shape0 = 2, shape1 = 1, cells = [[1], [2]]\<rparr>)
                   [0, 0] (1 / 10) ^^ m) [1 / 2, 1 / 2]))
   \<and> gradient_descent \<lparr>shape0 = 2, shape1 = 1, cells = [[1], [2]]\<rparr> [0, 0] (1 / 10) 3
        (\<lambda>i. 1 / 2) = Inr [9 / 50, 0]
   \<and> descent_update (bias_first \<lparr>shape0 = 2, shape1 = 1, cells = [[1], [2]]\<rparr>)
        [0, 0] (1 / 10) [1 / 2, 1 / 2] = [0, - (3 / 10)]"
proof -
  let ?X = "\<lparr>shape0 = 2, shape1 = 1, cells = [[1], [2]]\<rparr>"
  have wf: "is_ndarray2 ?X"
    by (simp add: is_ndarray2_def)
  have len: "length [0, 0 :: real] = shape0 ?X"
    by simp
  have draws: "map (\<lambda>i. 1 / 2 :: real) [0..<shape1 ?X + 1] = [1 / 2, 1 / 2]"
    by code_simp
  have bounds: "nat (3 - 1) = 2" "nat 3 = 3"
    by simp_all
  have run: "gradient_descent ?X [0, 0] (1 / 10) 3 (\<lambda>i. 1 / 2) = Inr [9 / 50, 0]"
    by code_simp
  have step: "descent_update (bias_first ?X) [0, 0] (1 / 10) [1 / 2, 1 / 2] = [0, - (3 / 10)]"
    by code_simp
  obtain m where "nat (3 - 1) \<le> m" "m \<le> nat 3"
      "gradient_descent ?X [0, 0] (1 / 10) 3 (\<lambda>i. 1 / 2) =
        Inr ((descent_update (bias_first ?X) [0, 0] (1 / 10) ^^ m)
              (map (\<lambda>i. 1 / 2) [0..<shape1 ?X + 1]))"
    using gradient_descent_descends [OF wf len, of 3 "1 / 10" "\<lambda>i. 1 / 2"] by blast
  then have "2 \<le> m \<and> m \<le> 3
      \<and> gradient_descent ?X [0, 0] (1 / 10) 3 (\<lambda>i. 1 / 2) =
        Inr ((descent_update (bias_first ?X) [0, 0] (1 / 10) ^^ m) [1 / 2, 1 / 2])"
    unfolding draws bounds by simp
  then show ?thesis
    using wf run step by blast
qed

end
